theory Spec2Isabelle
  imports Complex_Main
begin

section \<open>JavaScript values used by the fallback code of server/routes.ts\<close>

text \<open>
  A table cell read from a parsed row is a string, or \<open>undefined\<close> when the row is
  shorter than the index read; \<open>undefined\<close> is \<open>None\<close>. JavaScript numbers are
  modelled as exact reals, with \<open>NaN\<close> as \<open>None\<close>; infinities and the rounding error
  of double arithmetic are outside the model. The built-in conversions \<open>Number(s)\<close>
  and \<open>String(x)\<close> and the stream of \<open>Math.random()\<close> results are parameters
  (\<open>num\<close>, \<open>str\<close>, \<open>rnd\<close>) of every function that calls them; the \<open>k\<close>-th call of
  \<open>Math.random()\<close> returns \<open>rnd k\<close>, and the functions that draw thread the number of
  calls made so far. Objects used as dictionaries (\<open>Record<string, T>\<close>) are maps from
  property names; names that meet a member of \<open>Object.prototype\<close>, such as
  \<open>__proto__\<close>, are outside the model.
\<close>

type_synonym cell = "string option"

type_synonym jsrow = "string \<Rightarrow> cell"

text \<open>\<open>xs[i]\<close>: \<open>undefined\<close> out of range.\<close>

definition js_nth :: "'a list \<Rightarrow> int \<Rightarrow> 'a option" where
  "js_nth xs i = (if 0 \<le> i \<and> i < int (length xs) then Some (xs ! nat i) else None)"

text \<open>\<open>r[idx]\<close> for a row of strings.\<close>

definition cell_at :: "string list \<Rightarrow> nat \<Rightarrow> cell" where
  "cell_at r idx = js_nth r (int idx)"

text \<open>\<open>v ?? ''\<close>\<close>

definition orEmpty :: "cell \<Rightarrow> string" where
  "orEmpty v = (case v of None \<Rightarrow> [] | Some s \<Rightarrow> s)"

text \<open>\<open>Number(v)\<close> on a cell: \<open>Number(undefined)\<close> is \<open>NaN\<close>.\<close>

definition Number_cell :: "(string \<Rightarrow> real option) \<Rightarrow> cell \<Rightarrow> real option" where
  "Number_cell num v = (case v of None \<Rightarrow> None | Some s \<Rightarrow> num s)"

text \<open>\<open>isNaN(x)\<close> for a number \<open>x\<close>.\<close>

definition isNaN :: "real option \<Rightarrow> bool" where
  "isNaN x = (x = None)"

text \<open>\<open>vals.map(v => Number(v)).filter(n => !Number.isNaN(n))\<close>\<close>

definition nums_of :: "(string \<Rightarrow> real option) \<Rightarrow> cell list \<Rightarrow> real list" where
  "nums_of num vals = List.map_filter (Number_cell num) vals"

text \<open>\<open>nums.length ? Math.min(...nums) : d\<close> and the same with \<open>Math.max\<close>.\<close>

definition min_or :: "real \<Rightarrow> real list \<Rightarrow> real" where
  "min_or d nums = (case nums of [] \<Rightarrow> d | x # xs \<Rightarrow> fold min xs x)"

definition max_or :: "real \<Rightarrow> real list \<Rightarrow> real" where
  "max_or d nums = (case nums of [] \<Rightarrow> d | x # xs \<Rightarrow> fold max xs x)"

definition isInteger :: "real \<Rightarrow> bool" where
  "isInteger x = (of_int \<lfloor>x\<rfloor> = x)"

text \<open>\<open>Math.round\<close> rounds to the nearest integer, halves towards plus infinity.\<close>

definition Math_round :: "real \<Rightarrow> real" where
  "Math_round x = of_int \<lfloor>x + 1 / 2\<rfloor>"



text \<open>\<open>new Set(xs)\<close>, \<open>s.delete(x)\<close>: a set iterates in insertion order.\<close>

definition Set_add :: "'a \<Rightarrow> 'a list \<Rightarrow> 'a list" where
  "Set_add x s = (if x \<in> set s then s else s @ [x])"

definition Set_from :: "'a list \<Rightarrow> 'a list" where
  "Set_from xs = fold Set_add xs []"

definition Set_delete :: "'a \<Rightarrow> 'a list \<Rightarrow> 'a list" where
  "Set_delete x s = removeAll x s"


text \<open>\<open>s.split(c)\<close> for a one-character separator: never the empty list.\<close>

fun split :: "char \<Rightarrow> string \<Rightarrow> string list" where
  "split c [] = [[]]"
| "split c (x # xs) =
     (if x = c then [] # split c xs
      else (case split c xs of [] \<Rightarrow> [[x]] | s # ss \<Rightarrow> (x # s) # ss))"

section \<open>jsParseCSV: the columns of a parsed table\<close>

text \<open>
  \<open>jsParseCSV\<close> splits the text into \<open>headers\<close> (the trimmed cells of the first line)
  and \<open>rows\<close> (the trimmed cells of every other line); the model starts from these two.
  A column keeps the cells that are not the empty string, which keeps the \<open>undefined\<close>
  read from a short row, and is numeric when the first 100 kept cells all convert.
\<close>

datatype coltype = numeric | categorical

record column =
  name :: string
  type :: coltype
  "values" :: "cell list"

definition column_vals :: "string list list \<Rightarrow> nat \<Rightarrow> cell list" where
  "column_vals rows idx = filter (\<lambda>v. v \<noteq> Some []) (map (\<lambda>r. cell_at r idx) rows)"

definition parse_column ::
  "(string \<Rightarrow> real option) \<Rightarrow> string list list \<Rightarrow> nat \<times> string \<Rightarrow> column" where
  "parse_column num rows p =
     (case p of (idx, nm) \<Rightarrow>
        let vals = column_vals rows idx;
            isNum = list_all (\<lambda>v. \<not> isNaN (Number_cell num v)) (take 100 vals)
        in \<lparr>name = nm, type = (if isNum then numeric else categorical), values = vals\<rparr>)"

definition parse_columns ::
  "(string \<Rightarrow> real option) \<Rightarrow> string list \<Rightarrow> string list list \<Rightarrow> column list" where
  "parse_columns num headers rows = map (parse_column num rows) (enumerate 0 headers)"

section \<open>jsEvaluate\<close>

record correlation =
  originalCorr :: "real list list"
  syntheticCorr :: "real list list"
  columnNames :: "string list"

record evaluation =
  privacyScore :: real
  utilityScore :: real
  ksTestScore :: real
  correlationDistance :: real
  statisticalMetrics :: "(string \<times> real) list"
  distributionData :: "(string \<times> real list \<times> real list) list"
  correlationData :: correlation

definition jsEvaluate :: "column list \<Rightarrow> jsrow list \<Rightarrow> evaluation" where
  "jsEvaluate columns synth =
     \<lparr>privacyScore = 95,
      utilityScore = 92,
      ksTestScore = 2 / 100,
      correlationDistance = 5 / 100,
      statisticalMetrics = [],
      distributionData = [],
      correlationData =
        \<lparr>originalCorr = [[1, 7 / 10], [7 / 10, 1]],
         syntheticCorr = [[1, 68 / 100], [68 / 100, 1]],
         columnNames = map name (take 2 (filter (\<lambda>c. type c = numeric) columns))\<rparr>\<rparr>"

section \<open>/api/analyze_dataset: inferred types and suggested constraints\<close>

text \<open>\<open>/year/i.test(name)\<close>: the name contains \<open>year\<close> in any letter case.\<close>

fun year_here :: "string \<Rightarrow> bool" where
  "year_here (c1 # c2 # c3 # c4 # cs) =
     ((c1 = CHR ''y'' \<or> c1 = CHR ''Y'') \<and> (c2 = CHR ''e'' \<or> c2 = CHR ''E'') \<and>
      (c3 = CHR ''a'' \<or> c3 = CHR ''A'') \<and> (c4 = CHR ''r'' \<or> c4 = CHR ''R''))"
| "year_here cs = False"

fun test_year :: "string \<Rightarrow> bool" where
  "test_year [] = False"
| "test_year (c # cs) = (year_here (c # cs) \<or> test_year cs)"






section \<open>/api/generate_controlled: the controlled fallback generator\<close>

datatype jsvalue = JUndefined | JNull | JBool bool | JNumber real | JString string

record constraint =
  c_type :: jsvalue
  c_min :: jsvalue
  c_max :: jsvalue

record request =
  cols_to_synthesize :: "string list"
  constraints :: "string \<Rightarrow> constraint option"
  relations :: "string list list"

record meta =
  meta_min :: real
  meta_max :: real
  meta_int :: bool

text \<open>\<open>(constraints && constraints[col.name]) || {}\<close>\<close>

definition user_of :: "(string \<Rightarrow> constraint option) \<Rightarrow> string \<Rightarrow> constraint" where
  "user_of cs nm =
     (case cs nm of
        None \<Rightarrow> \<lparr>c_type = JUndefined, c_min = JUndefined, c_max = JUndefined\<rparr>
      | Some u \<Rightarrow> u)"

text \<open>\<open>typeof v === 'number' ? v : d\<close>\<close>

definition number_or :: "jsvalue \<Rightarrow> real \<Rightarrow> real" where
  "number_or v d = (case v of JNumber x \<Rightarrow> x | _ \<Rightarrow> d)"

text \<open>The entry of \<open>numericMeta\<close> written for a selected column; the constraint's
  \<open>type\<close> is not read.\<close>

definition meta_entry ::
  "(string \<Rightarrow> real option) \<Rightarrow> (string \<Rightarrow> constraint option) \<Rightarrow> column \<Rightarrow> meta" where
  "meta_entry num cs col =
     (let nums = nums_of num (values col);
          mn = min_or 0 nums;
          mx = max_or 1 nums;
          i = (isInteger mn \<and> isInteger mx);
          user = user_of cs (name col)
      in \<lparr>meta_min = number_or (c_min user) mn,
          meta_max = number_or (c_max user) mx,
          meta_int = i\<rparr>)"

definition build_numericMeta ::
  "(string \<Rightarrow> real option) \<Rightarrow> (string \<Rightarrow> constraint option) \<Rightarrow> string list \<Rightarrow>
   column list \<Rightarrow> (string \<Rightarrow> meta option)" where
  "build_numericMeta num cs synthSet columns =
     fold (\<lambda>col m. if name col \<notin> set synthSet then m
                    else m(name col \<mapsto> meta_entry num cs col))
          columns Map.empty"

text \<open>\<open>headers.indexOf(a)\<close>\<close>

fun indexOf :: "'a list \<Rightarrow> 'a \<Rightarrow> int" where
  "indexOf [] a = - 1"
| "indexOf (x # xs) a =
     (if x = a then 0 else (let i = indexOf xs a in if i < 0 then - 1 else i + 1))"

type_synonym pool = "(cell \<times> cell) list"

definition pool_of :: "string list \<Rightarrow> string list list \<Rightarrow> string \<Rightarrow> string \<Rightarrow> pool" where
  "pool_of headers rows a b =
     map (\<lambda>r. (js_nth r (indexOf headers a), js_nth r (indexOf headers b))) rows"

text \<open>\<open>relationPools[key] = v\<close>: a key keeps the place of its first insertion.\<close>

fun pools_put :: "string \<Rightarrow> pool \<Rightarrow> (string \<times> pool) list \<Rightarrow> (string \<times> pool) list" where
  "pools_put key v [] = [(key, v)]"
| "pools_put key v ((key', v') # ps) =
     (if key = key' then (key, v) # ps else (key', v') # pools_put key v ps)"

text \<open>The template literal that keys a pool, and one pass of the loop over
  \<open>relationPairs\<close>: a pair that is not of length 2, or names a column outside the
  synthesize-set, is skipped.\<close>

definition pool_key :: "string \<Rightarrow> string \<Rightarrow> string" where
  "pool_key a b = a @ ''|'' @ b"

definition add_relation ::
  "string list \<Rightarrow> string list list \<Rightarrow> string list \<Rightarrow> string list \<Rightarrow>
   (string \<times> pool) list \<Rightarrow> (string \<times> pool) list" where
  "add_relation headers rows synthSet pair pools =
     (case pair of
        [a, b] \<Rightarrow>
          if a \<notin> set synthSet \<or> b \<notin> set synthSet then pools
          else pools_put (pool_key a b) (pool_of headers rows a b) pools
      | _ \<Rightarrow> pools)"

definition build_relationPools ::
  "string list \<Rightarrow> string list list \<Rightarrow> string list \<Rightarrow> string list list \<Rightarrow>
   (string \<times> pool) list" where
  "build_relationPools headers rows synthSet rels =
     fold (add_relation headers rows synthSet) rels []"

text \<open>\<open>const [a,b] = key.split('|')\<close>; a missing part is \<open>undefined\<close>, which as a
  property name is the string \<open>undefined\<close>.\<close>

definition key_names :: "string \<Rightarrow> string \<times> string" where
  "key_names key =
     (case split (CHR ''|'') key of
        a # b # _ \<Rightarrow> (a, b)
      | [a] \<Rightarrow> (a, ''undefined'')
      | [] \<Rightarrow> (''undefined'', ''undefined''))"

text \<open>\<open>Math.floor(Math.random() * n)\<close> for the draw \<open>r\<close>.\<close>

definition random_index :: "real \<Rightarrow> nat \<Rightarrow> int" where
  "random_index r n = \<lfloor>r * real n\<rfloor>"

text \<open>\<open>original[headers[h]] = rows[i]?.[h] ?? ''\<close> for \<open>h\<close> from 0.\<close>

definition original_row :: "string list \<Rightarrow> string list list \<Rightarrow> nat \<Rightarrow> jsrow" where
  "original_row headers rows i =
     fold (\<lambda>h orig. orig(headers ! h :=
                      Some (orEmpty (case js_nth rows (int i) of
                                       None \<Rightarrow> None
                                     | Some r \<Rightarrow> cell_at r h))))
          [0..<length headers] (\<lambda>_. None)"

text \<open>
  The loop over \<open>Object.keys(relationPools)\<close> of one output row. The state is the row
  under construction, the synthesize-set (shared by all rows and mutated here) and the
  number of random draws made so far. Reading \<open>pick[0]\<close> of an \<open>undefined\<close> pick
  throws; the handler's \<open>catch\<close> then answers with an error, which is \<open>None\<close>.
\<close>

fun apply_relations ::
  "(nat \<Rightarrow> real) \<Rightarrow> (string \<times> pool) list \<Rightarrow> jsrow \<times> string list \<times> nat \<Rightarrow>
   (jsrow \<times> string list \<times> nat) option" where
  "apply_relations rnd [] st = Some st"
| "apply_relations rnd ((key, pool) # ps) (newRow, synthSet, k) =
     (case key_names key of (a, b) \<Rightarrow>
        if pool \<noteq> [] then
          (case js_nth pool (random_index (rnd k) (length pool)) of
             None \<Rightarrow> None
           | Some pick \<Rightarrow>
               apply_relations rnd ps
                 (newRow(a := Some (orEmpty (fst pick)), b := Some (orEmpty (snd pick))),
                  Set_delete b (Set_delete a synthSet), k + 1))
        else apply_relations rnd ps (newRow, synthSet, k))"

text \<open>The number written for a numeric column, before \<open>String\<close>.\<close>

definition synth_number :: "meta \<Rightarrow> real \<Rightarrow> real" where
  "synth_number m r =
     (let val = meta_min m + r * (meta_max m - meta_min m)
      in if meta_int m then Math_round val else Math_round (val * 1000) / 1000)"

text \<open>
  The body of the loop over \<open>Array.from(synthSet)\<close> for a column that \<open>columns.find\<close>
  has found: the cell written and the number of draws made after it. A numeric column with an
  entry of \<open>numericMeta\<close> takes a number in its bounds; any other column takes an element of
  its distinct values, or the empty string when it has none.
\<close>

definition synth_cell ::
  "(real \<Rightarrow> string) \<Rightarrow> (nat \<Rightarrow> real) \<Rightarrow> (string \<Rightarrow> meta option) \<Rightarrow> column \<Rightarrow>
   string \<Rightarrow> nat \<Rightarrow> cell \<times> nat" where
  "synth_cell str rnd numericMeta colInfo colName k =
     (case (if type colInfo = numeric then numericMeta colName else None) of
        Some m \<Rightarrow> (Some (str (synth_number m (rnd k))), k + 1)
      | None \<Rightarrow>
          (let uniq = Set_from (values colInfo)
           in if uniq \<noteq> [] then
                ((case js_nth uniq (random_index (rnd k) (length uniq)) of
                    None \<Rightarrow> None
                  | Some v \<Rightarrow> v), k + 1)
              else (Some [], k)))"

text \<open>The loop itself; a name that \<open>columns.find\<close> does not find is skipped.\<close>

fun synth_columns ::
  "(real \<Rightarrow> string) \<Rightarrow> (nat \<Rightarrow> real) \<Rightarrow> (string \<Rightarrow> meta option) \<Rightarrow> column list \<Rightarrow>
   string list \<Rightarrow> jsrow \<times> nat \<Rightarrow> jsrow \<times> nat" where
  "synth_columns str rnd numericMeta columns [] st = st"
| "synth_columns str rnd numericMeta columns (colName # cs) (newRow, k) =
     (case find (\<lambda>c. name c = colName) columns of
        None \<Rightarrow> synth_columns str rnd numericMeta columns cs (newRow, k)
      | Some colInfo \<Rightarrow>
          (case synth_cell str rnd numericMeta colInfo colName k of (v, k') \<Rightarrow>
             synth_columns str rnd numericMeta columns cs (newRow(colName := v), k')))"

text \<open>What the handler computes once per request, before the row loop.\<close>

record env =
  headers :: "string list"
  rows :: "string list list"
  columns :: "column list"
  numericMeta :: "string \<Rightarrow> meta option"
  relationPools :: "(string \<times> pool) list"

text \<open>One pass of the row loop: seed the row from source row \<open>i\<close>, apply the relations,
  then synthesize the columns still in the synthesize-set.\<close>

definition gen_row ::
  "(real \<Rightarrow> string) \<Rightarrow> (nat \<Rightarrow> real) \<Rightarrow> env \<Rightarrow> nat \<Rightarrow> string list \<times> nat \<Rightarrow>
   (jsrow \<times> string list \<times> nat) option" where
  "gen_row str rnd e i st =
     (case st of (synthSet, k) \<Rightarrow>
        let original = original_row (headers e) (rows e) i;
            newRow = original
        in case apply_relations rnd (relationPools e) (newRow, synthSet, k) of
             None \<Rightarrow> None
           | Some (newRow', synthSet', k') \<Rightarrow>
               (case synth_columns str rnd (numericMeta e) (columns e) synthSet' (newRow', k') of
                  (newRow'', k'') \<Rightarrow> Some (newRow'', synthSet', k'')))"

text \<open>\<open>for (let i=0; i<dataset.rowCount; i++)\<close>, over the indices still to do.\<close>

fun row_loop ::
  "(real \<Rightarrow> string) \<Rightarrow> (nat \<Rightarrow> real) \<Rightarrow> env \<Rightarrow> nat list \<Rightarrow> string list \<times> nat \<Rightarrow>
   jsrow list option" where
  "row_loop str rnd e [] st = Some []"
| "row_loop str rnd e (i # is) st =
     (case gen_row str rnd e i st of
        None \<Rightarrow> None
      | Some (newRow, synthSet', k') \<Rightarrow>
          (case row_loop str rnd e is (synthSet', k') of
             None \<Rightarrow> None
           | Some outRows \<Rightarrow> Some (newRow # outRows)))"

text \<open>\<open>new Set((cols_to_synthesize || []).filter(c => headers.includes(c)))\<close>\<close>

definition make_synthSet :: "string list \<Rightarrow> string list \<Rightarrow> string list" where
  "make_synthSet hs cols = Set_from (filter (\<lambda>c. c \<in> set hs) cols)"

definition make_env ::
  "(string \<Rightarrow> real option) \<Rightarrow> string list \<Rightarrow> string list list \<Rightarrow> request \<Rightarrow> env" where
  "make_env num hs rs req =
     (let cols = parse_columns num hs rs;
          synthSet = make_synthSet hs (cols_to_synthesize req)
      in \<lparr>headers = hs, rows = rs, columns = cols,
          numericMeta = build_numericMeta num (constraints req) synthSet cols,
          relationPools = build_relationPools hs rs synthSet (relations req)\<rparr>)"

text \<open>\<open>outRows\<close> of the fallback for a parsed table, a stored row count and a request.\<close>

definition generate_controlled ::
  "(string \<Rightarrow> real option) \<Rightarrow> (real \<Rightarrow> string) \<Rightarrow> (nat \<Rightarrow> real) \<Rightarrow>
   string list \<Rightarrow> string list list \<Rightarrow> nat \<Rightarrow> request \<Rightarrow> jsrow list option" where
  "generate_controlled num str rnd hs rs rowCount req =
     row_loop str rnd (make_env num hs rs req) [0..<rowCount]
       (make_synthSet hs (cols_to_synthesize req), 0)"

text \<open>The lines of \<open>syntheticCsv\<close> as cells, and the text itself.\<close>

definition csv_table :: "string list \<Rightarrow> jsrow list \<Rightarrow> string list list" where
  "csv_table hs outRows = hs # map (\<lambda>r. map (\<lambda>h. orEmpty (r h)) hs) outRows"


section \<open>Auxiliary notions and worked inputs\<close>




text \<open>
  Concrete conversions for the worked inputs below. \<open>Number_dec\<close> reads a plain decimal
  literal (an optional sign, digits, an optional fraction) and is \<open>NaN\<close> on every other
  string; \<open>String_dec\<close> prints a number that is a multiple of 0.001 in plain decimal
  notation. They agree with \<open>Number\<close> and \<open>String\<close> on the strings and numbers that
  occur in the worked inputs (plain literals and words without digits; numbers below
  \<open>10\<^sup>2\<^sup>1\<close>); exponents, hexadecimal literals and \<open>Infinity\<close> are not covered. The
  general theorems do not use them.
\<close>

definition digit_of :: "char \<Rightarrow> nat option" where
  "digit_of c = map_of [(CHR ''0'', 0), (CHR ''1'', 1), (CHR ''2'', 2), (CHR ''3'', 3), (CHR ''4'', 4),
      (CHR ''5'', 5), (CHR ''6'', 6), (CHR ''7'', 7), (CHR ''8'', 8), (CHR ''9'', 9)] c"

fun digits_value :: "string \<Rightarrow> nat \<Rightarrow> nat option" where
  "digits_value [] acc = Some acc"
| "digits_value (c # cs) acc =
     (case digit_of c of None \<Rightarrow> None | Some d \<Rightarrow> digits_value cs (10 * acc + d))"

definition unsigned_dec :: "string \<Rightarrow> real option" where
  "unsigned_dec s =
     (case split (CHR ''.'') s of
        [ip] \<Rightarrow> (if ip = [] then None else map_option real (digits_value ip 0))
      | [ip, fp] \<Rightarrow>
          (if ip = [] \<and> fp = [] then None
           else (case (digits_value ip 0, digits_value fp 0) of
                   (Some a, Some b) \<Rightarrow> Some (real a + real b / 10 ^ length fp)
                 | _ \<Rightarrow> None))
      | _ \<Rightarrow> None)"

definition Number_dec :: "string \<Rightarrow> real option" where
  "Number_dec s =
     (case s of
        c # t \<Rightarrow> (if c = CHR ''-'' then map_option uminus (unsigned_dec t)
                  else if c = CHR ''+'' then unsigned_dec t else unsigned_dec s)
      | [] \<Rightarrow> None)"

function digits_of :: "nat \<Rightarrow> string" where
  "digits_of n = (if n < 10 then [''0123456789'' ! n]
                  else digits_of (n div 10) @ [''0123456789'' ! (n mod 10)])"
  by pat_completeness auto

termination by (relation "measure id") auto

definition String_dec :: "real \<Rightarrow> string" where
  "String_dec x =
     (let m = nat \<lfloor>\<bar>x\<bar> * 1000\<rfloor>; ip = m div 1000; fp = m mod 1000;
          d1 = fp div 100; d2 = (fp div 10) mod 10; d3 = fp mod 10;
          frac = (if fp = 0 then []
                  else CHR ''.'' # digits_of d1 @
                       (if d2 = 0 \<and> d3 = 0 then [] else digits_of d2 @
                          (if d3 = 0 then [] else digits_of d3)))
      in (if x < 0 \<and> m \<noteq> 0 then ''-'' else []) @ digits_of ip @ frac)"

text \<open>A random source that always returns 0.5.\<close>

definition rnd_half :: "nat \<Rightarrow> real" where
  "rnd_half k = 1 / 2"

text \<open>The table \<open>name,age / Alice,30 / Bob,40 / Carol,50\<close> of the specification's scenario.\<close>

definition people_headers :: "string list" where
  "people_headers = [''name'', ''age'']"

definition people_rows :: "string list list" where
  "people_rows = [[''Alice'', ''30''], [''Bob'', ''40''], [''Carol'', ''50'']]"






definition name_request :: request where
  "name_request =
     \<lparr>cols_to_synthesize = [''name''], constraints = Map.empty, relations = []\<rparr>"
















text \<open>Two synthetic tables for the scenario's source: a copy of the source rows, and one
  row that shares no value with it.\<close>

definition faithful_rows :: "jsrow list" where
  "faithful_rows =
     [original_row people_headers people_rows 0, original_row people_headers people_rows 1,
      original_row people_headers people_rows 2]"

definition distorted_rows :: "jsrow list" where
  "distorted_rows = [(\<lambda>_. None)(''name'' := Some ''Zed'', ''age'' := Some ''999'')]"

text \<open>The table \<open>code,name / US,United States / FR\<close>, whose second row is short.\<close>

definition short_headers :: "string list" where
  "short_headers = [''code'', ''name'']"

definition short_rows :: "string list list" where
  "short_rows = [[''US'', ''United States''], [''FR'']]"

section \<open>Lemmas about the model\<close>

subsection \<open>The year test\<close>

text \<open>\<open>test_year\<close> holds exactly of the names that contain the letters y, e, a, r in a
  row, each in either case.\<close>

lemma year_here_iff:
  "year_here s \<longleftrightarrow>
     (\<exists>c1 c2 c3 c4 v. s = c1 # c2 # c3 # c4 # v \<and>
        c1 \<in> {CHR ''y'', CHR ''Y''} \<and> c2 \<in> {CHR ''e'', CHR ''E''} \<and>
        c3 \<in> {CHR ''a'', CHR ''A''} \<and> c4 \<in> {CHR ''r'', CHR ''R''})"
  by (cases s rule: year_here.cases) auto

lemma test_year_iff:
  "test_year s \<longleftrightarrow> (\<exists>u w. s = u @ w \<and> year_here w)"
proof (induction s)
  case Nil
  then show ?case by simp
next
  case (Cons c cs)
  show ?case
  proof
    assume "test_year (c # cs)"
    then consider "year_here (c # cs)" | "test_year cs" by auto
    then show "\<exists>u w. c # cs = u @ w \<and> year_here w"
    proof cases
      case 1
      then show ?thesis by (intro exI [of _ "[]"] exI [of _ "c # cs"]) simp
    next
      case 2
      then obtain u w where "cs = u @ w" "year_here w" using Cons.IH by blast
      then show ?thesis by (intro exI [of _ "c # u"] exI [of _ w]) simp
    qed
  next
    assume "\<exists>u w. c # cs = u @ w \<and> year_here w"
    then obtain u w where uw: "c # cs = u @ w" "year_here w" by blast
    show "test_year (c # cs)"
    proof (cases u)
      case Nil
      then have "year_here (c # cs)" using uw by simp
      then show ?thesis by simp
    next
      case (Cons d u')
      then have "cs = u' @ w" using uw(1) by simp
      then have "test_year cs" using Cons.IH uw(2) by blast
      then show ?thesis by simp
    qed
  qed
qed

subsection \<open>Numbers, sets and draws\<close>














subsection \<open>The per-column step\<close>



subsection \<open>The relation step\<close>







subsection \<open>One row, all rows\<close>







lemma env_simps:
  "headers (make_env num hs rs req) = hs"
  "rows (make_env num hs rs req) = rs"
  "columns (make_env num hs rs req) = parse_columns num hs rs"
  "numericMeta (make_env num hs rs req) =
     build_numericMeta num (constraints req) (make_synthSet hs (cols_to_synthesize req))
       (parse_columns num hs rs)"
  "relationPools (make_env num hs rs req) =
     build_relationPools hs rs (make_synthSet hs (cols_to_synthesize req)) (relations req)"
  by (simp_all add: make_env_def Let_def)

subsection \<open>The seed row\<close>



subsection \<open>The table of numeric bounds\<close>



subsection \<open>Parsed columns\<close>



subsection \<open>Keys of the relation pools\<close>

















subsection \<open>The generator as a whole\<close>






lemma isInteger_iff: "isInteger x \<longleftrightarrow> x \<in> \<int>"
  unfolding isInteger_def by (metis Ints_of_int Ints_cases of_int_floor_cancel floor_of_int)








section \<open>Evaluation of the worked inputs\<close>

lemmas Number_dec_eval = Number_dec_def unsigned_dec_def digit_of_def

lemma people_columns:
  "parse_columns Number_dec people_headers people_rows =
     [\<lparr>name = ''name'', type = categorical,
       values = [Some ''Alice'', Some ''Bob'', Some ''Carol'']\<rparr>,
      \<lparr>name = ''age'', type = numeric, values = [Some ''30'', Some ''40'', Some ''50'']\<rparr>]"
  by (simp add: parse_columns_def parse_column_def column_vals_def cell_at_def js_nth_def
      people_headers_def people_rows_def enumerate_eq_zip Number_cell_def Number_dec_eval
      isNaN_def)


lemma upt_0_2: "[0..<2] = [0, 1]"
  by code_simp








text \<open>Two more ways out of the bounds: a bound that is not an integer on a column whose
  observed values are integers (25.2..60 with a draw of 0.005 gives 25), and a minimum above
  the maximum (60..50 with a draw of 0.5 gives 55).\<close>

lemma fractional_bound_rounds_out:
  "synth_number \<lparr>meta_min = 126 / 5, meta_max = 60, meta_int = True\<rparr> (1 / 200) = 25"
  by (simp add: synth_number_def Math_round_def)

lemma crossed_bounds_are_kept:
  "synth_number \<lparr>meta_min = 60, meta_max = 50, meta_int = True\<rparr> (1 / 2) = 55"
  by (simp add: synth_number_def Math_round_def)












text \<open>
  A cell missing from a short row is \<open>undefined\<close>,
  passes the filter \<open>v !== ''\<close> and sits in the value pool; drawn for a categorical column
  it is written as the empty string. Here \<open>name\<close> alone is selected and the draws are 0.5.
\<close>

lemma short_row_pool_holds_undefined:
  "find (\<lambda>c. name c = ''name'') (parse_columns Number_dec short_headers short_rows)
     = Some \<lparr>name = ''name'', type = categorical, values = [Some ''United States'', None]\<rparr> \<and>
   map_option (csv_table short_headers)
     (generate_controlled Number_dec String_dec rnd_half short_headers short_rows 2 name_request)
   = Some [[''code'', ''name''], [''US'', ''''], [''FR'', '''']]"
proof -
  have cols: "parse_columns Number_dec short_headers short_rows =
     [\<lparr>name = ''code'', type = categorical, values = [Some ''US'', Some ''FR'']\<rparr>,
      \<lparr>name = ''name'', type = categorical, values = [Some ''United States'', None]\<rparr>]"
    by (simp add: parse_columns_def parse_column_def column_vals_def cell_at_def js_nth_def
        short_headers_def short_rows_def enumerate_eq_zip Number_cell_def Number_dec_eval
        isNaN_def)
  have found: "find (\<lambda>c. name c = ''name'') (parse_columns Number_dec short_headers short_rows)
     = Some \<lparr>name = ''name'', type = categorical, values = [Some ''United States'', None]\<rparr>"
    by (simp add: cols)
  have S: "make_synthSet short_headers (cols_to_synthesize name_request) = [''name'']"
    by (simp add: make_synthSet_def Set_from_def Set_add_def short_headers_def name_request_def)
  have pools: "build_relationPools short_headers short_rows [''name''] (relations name_request) = []"
    by (simp add: build_relationPools_def name_request_def)
  have uniq: "Set_from [Some ''United States'', None] = [Some ''United States'', None]"
    by (simp add: Set_from_def Set_add_def)
  have cell: "synth_cell String_dec rnd_half nm
      \<lparr>name = ''name'', type = categorical, values = [Some ''United States'', None]\<rparr> ''name'' k
      = (None, k + 1)" for nm k
    by (simp add: synth_cell_def uniq random_index_def rnd_half_def js_nth_def)
  have row: "gen_row String_dec rnd_half
       (make_env Number_dec short_headers short_rows name_request) i ([''name''], k)
     = Some ((original_row short_headers short_rows i)(''name'' := None), [''name''], k + 1)"
    for i k
    by (simp add: gen_row_def env_simps S pools found cell)
  have "generate_controlled Number_dec String_dec rnd_half short_headers short_rows 2 name_request
     = Some [(original_row short_headers short_rows 0)(''name'' := None),
             (original_row short_headers short_rows 1)(''name'' := None)]"
    by (simp add: generate_controlled_def S row upt_0_2)
  then have "map_option (csv_table short_headers)
     (generate_controlled Number_dec String_dec rnd_half short_headers short_rows 2 name_request)
   = Some [[''code'', ''name''], [''US'', ''''], [''FR'', '''']]"
    by (simp add: csv_table_def original_row_def short_headers_def short_rows_def
        js_nth_def cell_at_def orEmpty_def)
  then show ?thesis using found by simp
qed

text \<open>A key is read back with \<open>key.split('|')\<close>: for the pair of columns \<open>a|b\<close> and
  \<open>c\<close> the relation step writes the properties \<open>a\<close> and \<open>b\<close>.\<close>

lemma bar_in_a_name_breaks_the_key:
  "key_names (pool_key ''a|b'' ''c'') = (''a'', ''b'')"
  by (simp add: key_names_def pool_key_def)

section \<open>The claims\<close>

subsection \<open>C1: numeric columns and their effective bounds\<close>




subsection \<open>C2: relation pairs\<close>




subsection \<open>C3: categorical columns\<close>




subsection \<open>C4: row count and header order\<close>



subsection \<open>C5: utility and privacy scores\<close>

text \<open>
  Claim C5 as stated fails: the utility score is a constant, and so is the privacy score. For
  the scenario's source, a synthetic table that copies the source and a synthetic table of
  one row that shares no value with it receive the same utility score and the same privacy
  score.
\<close>

theorem C5_counterexample:
  "utilityScore (jsEvaluate (parse_columns Number_dec people_headers people_rows) faithful_rows)
   = utilityScore (jsEvaluate (parse_columns Number_dec people_headers people_rows) distorted_rows) \<and>
   privacyScore (jsEvaluate (parse_columns Number_dec people_headers people_rows) faithful_rows)
   = privacyScore (jsEvaluate (parse_columns Number_dec people_headers people_rows) distorted_rows) \<and>
   map (\<lambda>r. r ''age'') faithful_rows = [Some ''30'', Some ''40'', Some ''50''] \<and>
   map (\<lambda>r. r ''age'') distorted_rows = [Some ''999'']"
  by (simp add: jsEvaluate_def faithful_rows_def distorted_rows_def original_row_def
      people_headers_def people_rows_def js_nth_def cell_at_def orEmpty_def)

text \<open>
  Claim C5, as amended. The utility score of \<open>jsEvaluate\<close> is 92 and its privacy score is
  95 for every pair of inputs, and the KS score and the correlation distance it reports are
  the constants 0.02 and 0.05: no score depends on a divergence between the tables.
\<close>

theorem C5_scores_are_constants:
  "utilityScore (jsEvaluate cols synth) = 92 \<and> privacyScore (jsEvaluate cols synth) = 95 \<and>
   ksTestScore (jsEvaluate cols synth) = 2 / 100 \<and>
   correlationDistance (jsEvaluate cols synth) = 5 / 100"
  by (simp add: jsEvaluate_def)

text \<open>
  The amended claim C5 on the synthetic table that shares no value with the source.
\<close>

theorem C5_witness:
  "utilityScore (jsEvaluate (parse_columns Number_dec people_headers people_rows) distorted_rows) = 92 \<and>
   privacyScore (jsEvaluate (parse_columns Number_dec people_headers people_rows) distorted_rows) = 95"
  using C5_scores_are_constants [of "parse_columns Number_dec people_headers people_rows" distorted_rows]
  by simp

subsection \<open>C6: columns that are not selected\<close>



subsection \<open>C7: constraint suggestions of the analyzer\<close>



subsection \<open>C8: bounds that the caller leaves out\<close>



subsection \<open>C9: the report of the fallback evaluator\<close>

text \<open>
  Claim C9. \<open>jsEvaluate\<close> returns privacy 95, utility 92, KS 0.02, correlation distance
  0.05, empty distribution data and the two fixed correlation matrices; only
  \<open>columnNames\<close>, the names of the first two numeric columns, depends on the input. The
  synthetic rows are never read: two calls that differ in them agree, and two calls on any
  inputs agree once \<open>columnNames\<close> is blanked.
\<close>

theorem C9_evaluation_report_is_fixed:
  "jsEvaluate cols synth =
     \<lparr>privacyScore = 95, utilityScore = 92, ksTestScore = 2 / 100,
      correlationDistance = 5 / 100, statisticalMetrics = [], distributionData = [],
      correlationData =
        \<lparr>originalCorr = [[1, 7 / 10], [7 / 10, 1]],
         syntheticCorr = [[1, 68 / 100], [68 / 100, 1]],
         columnNames = map name (take 2 (filter (\<lambda>c. type c = numeric) cols))\<rparr>\<rparr> \<and>
   jsEvaluate cols synth = jsEvaluate cols synth' \<and>
   (jsEvaluate cols synth)\<lparr>correlationData :=
       (correlationData (jsEvaluate cols synth))\<lparr>columnNames := []\<rparr>\<rparr>
     = (jsEvaluate cols' synth')\<lparr>correlationData :=
       (correlationData (jsEvaluate cols' synth'))\<lparr>columnNames := []\<rparr>\<rparr>"
  by (simp add: jsEvaluate_def)

text \<open>
  Claim C9 on the scenario's source and two different synthetic tables.
\<close>

theorem C9_witness:
  "jsEvaluate (parse_columns Number_dec people_headers people_rows) faithful_rows
   = jsEvaluate (parse_columns Number_dec people_headers people_rows) distorted_rows \<and>
   columnNames (correlationData
     (jsEvaluate (parse_columns Number_dec people_headers people_rows) faithful_rows)) = [''age'']"
proof -
  note fixed = C9_evaluation_report_is_fixed
    [where cols = "parse_columns Number_dec people_headers people_rows"
       and synth = faithful_rows and synth' = distorted_rows and cols' = "[]"]
  from fixed have "jsEvaluate (parse_columns Number_dec people_headers people_rows) faithful_rows
      = jsEvaluate (parse_columns Number_dec people_headers people_rows) distorted_rows"
    by blast
  moreover from fixed have "columnNames (correlationData
     (jsEvaluate (parse_columns Number_dec people_headers people_rows) faithful_rows))
      = map name (take 2 (filter (\<lambda>c. type c = numeric)
          (parse_columns Number_dec people_headers people_rows)))"
    by simp
  ultimately have "jsEvaluate (parse_columns Number_dec people_headers people_rows) faithful_rows
      = jsEvaluate (parse_columns Number_dec people_headers people_rows) distorted_rows"
    and "columnNames (correlationData
     (jsEvaluate (parse_columns Number_dec people_headers people_rows) faithful_rows))
      = map name (take 2 (filter (\<lambda>c. type c = numeric)
          (parse_columns Number_dec people_headers people_rows)))"
    by blast+
  then show ?thesis by (simp add: people_columns)
qed

subsection \<open>C10: headers that share a name\<close>



end
